theory Spec2Isabelle
  imports Complex_Main
begin

section \<open>Common values\<close>

text \<open>
  Document identifiers (MongoDB ObjectIds) and points in time (the value of
  \<^verbatim>\<open>new Date()\<close>) are opaque to the controllers: they are only stored and
  compared for equality, so natural numbers stand for both.
\<close>

type_synonym objectId = nat
type_synonym date = nat

text \<open>
  An exception that escapes a handler. \<^verbatim>\<open>TypeError\<close> is what reading a property
  of \<^verbatim>\<open>null\<close> raises (a reference that \<^verbatim>\<open>populate\<close> could not resolve).
\<close>

datatype js_error = TypeError

text \<open>
  What a handler answers: \<^verbatim>\<open>res.status(code).json({success, data})\<close>, or an
  exception handed to the error middleware (which is not part of the controllers).
  The message texts of the answers are left out, and so are the events that a handler
  emits over the socket after its writes.
\<close>

datatype 'a reply = Reply (code: nat) (success: bool) (data: "'a option") | Thrown js_error

definition clientError :: "'a reply \<Rightarrow> bool" where
  "clientError r = (case r of Reply c ok d \<Rightarrow> 400 \<le> c \<and> c < 500 \<and> \<not> ok | Thrown e \<Rightarrow> False)"

section \<open>Users (models/User.js)\<close>

datatype role = Admin | Invigilator | Student

datatype verificationStatus = Pending | Verified | Rejected

record user =
  user_id :: objectId
  firstName :: string
  lastName :: string
  role :: role
  verificationStatus :: verificationStatus
  faceData :: "string option"

text \<open>The template \<^verbatim>\<open>`${firstName} ${lastName}`\<close>.\<close>

definition fullNameOf :: "user \<Rightarrow> string" where
  "fullNameOf u = firstName u @ '' '' @ lastName u"

section \<open>Strings\<close>

text \<open>
  Names are strings of ASCII characters. \<^verbatim>\<open>toLowerCase\<close> maps the letters A to Z
  to a to z and keeps every other character; \<^verbatim>\<open>trim\<close> removes the white space
  (tab, line feed, vertical tab, form feed, carriage return, space) at both ends;
  \<^verbatim>\<open>s.includes(p)\<close> tells whether \<open>p\<close> occurs in \<open>s\<close> as a contiguous run.
\<close>

definition isWhiteSpace :: "char \<Rightarrow> bool" where
  "isWhiteSpace c = (of_char c \<in> set [9, 10, 11, 12, 13, 32 :: nat])"

definition toLowerChar :: "char \<Rightarrow> char" where
  "toLowerChar c =
     (case map_of (zip ''ABCDEFGHIJKLMNOPQRSTUVWXYZ'' ''abcdefghijklmnopqrstuvwxyz'') c of
        None \<Rightarrow> c
      | Some l \<Rightarrow> l)"

definition toLowerCase :: "string \<Rightarrow> string" where
  "toLowerCase s = map toLowerChar s"

definition trim :: "string \<Rightarrow> string" where
  "trim s = rev (dropWhile isWhiteSpace (rev (dropWhile isWhiteSpace s)))"

fun startsWith :: "string \<Rightarrow> string \<Rightarrow> bool" where
  "startsWith s [] = True"
| "startsWith [] (p # ps) = False"
| "startsWith (c # cs) (p # ps) = (c = p \<and> startsWith cs ps)"

fun includesStr :: "string \<Rightarrow> string \<Rightarrow> bool" where
  "includesStr [] p = (p = [])"
| "includesStr (c # cs) p = (startsWith (c # cs) p \<or> includesStr cs p)"

text \<open>\<^verbatim>\<open>const normalized = (str) => str.toLowerCase().trim()\<close>\<close>

definition normalized :: "string \<Rightarrow> string" where
  "normalized str = trim (toLowerCase str)"

section \<open>Attendance (models/Attendance.js, controllers/attendanceController.js)\<close>

datatype mark = Present | Absent

record attendance =
  att_student :: objectId
  att_sessionId :: string
  attendanceDate :: date
  studentName :: string
  attendanceMark :: mark
  markedAt :: "date option"

text \<open>
  \<^verbatim>\<open>Attendance.find({sessionId, attendanceDate})\<close> keeps the stored order;
  \<^verbatim>\<open>.populate('student', ...)\<close> puts the user document next to each record, or
  \<^verbatim>\<open>null\<close> when the user no longer exists.
\<close>

definition findAttendance :: "string \<Rightarrow> date \<Rightarrow> attendance list \<Rightarrow> attendance list" where
  "findAttendance sid d store = filter (\<lambda>r. att_sessionId r = sid \<and> attendanceDate r = d) store"

definition populate :: "(objectId \<rightharpoonup> user) \<Rightarrow> attendance list \<Rightarrow> (attendance \<times> user option) list" where
  "populate users recs = map (\<lambda>r. (r, users (att_student r))) recs"

text \<open>
  \<^verbatim>\<open>Attendance.updateMany({sessionId, attendanceDate, student: {$in: ids},
  attendanceMark: "Absent"}, {$set: {attendanceMark: "Present", markedAt: new Date()}})\<close>:
  the new collection and \<^verbatim>\<open>modifiedCount\<close>.
\<close>

definition selected :: "string \<Rightarrow> date \<Rightarrow> objectId list \<Rightarrow> attendance \<Rightarrow> bool" where
  "selected sid d ids r =
     (att_sessionId r = sid \<and> attendanceDate r = d \<and> att_student r \<in> set ids \<and>
      attendanceMark r = Absent)"

definition updateMany ::
  "string \<Rightarrow> date \<Rightarrow> objectId list \<Rightarrow> date \<Rightarrow> attendance list \<Rightarrow> attendance list \<times> nat" where
  "updateMany sid d ids now store =
     (map (\<lambda>r. if selected sid d ids r
                then r\<lparr>attendanceMark := Present, markedAt := Some now\<rparr> else r) store,
      length (filter (selected sid d ids) store))"

subsection \<open>updateAttendanceByAI\<close>

record markRequest =
  mark_sessionId :: string
  mark_attendanceDate :: "date option"
  presentStudentIds :: "objectId list"

text \<open>
  A request field that is missing or empty is falsy: the empty string for the session
  key, \<open>None\<close> for the date (\<open>Some d\<close> is the date that \<^verbatim>\<open>new Date(attendanceDate)\<close>
  denotes). The answer carries \<^verbatim>\<open>modifiedCount\<close>.
\<close>

definition updateAttendanceByAI ::
  "date \<Rightarrow> markRequest \<Rightarrow> attendance list \<Rightarrow> nat reply \<times> attendance list" where
  "updateAttendanceByAI now req store =
     (case mark_attendanceDate req of
        None \<Rightarrow> (Reply 400 False None, store)
      | Some d \<Rightarrow>
          if mark_sessionId req = [] \<or> presentStudentIds req = []
          then (Reply 400 False None, store)
          else
            let (store', modifiedCount) =
                  updateMany (mark_sessionId req) d (presentStudentIds req) now store
            in if modifiedCount = 0 then (Reply 200 True (Some 0), store')
               else (Reply 200 True (Some modifiedCount), store'))"

subsection \<open>verifyAttendanceWithAI\<close>

record matchLogEntry =
  detected :: string
  matched :: "string option"
  entry_status :: string

record aiData =
  detectedCount :: nat
  matchedCount :: nat
  updated :: nat
  matchLog :: "matchLogEntry list"
  summary_present :: nat
  summary_absent :: nat
  summary_total :: nat

record aiRequest =
  ai_sessionId :: string
  ai_attendanceDate :: "date option"
  aiDetectedStudents :: "string list"

text \<open>The condition of the inner loop's \<^verbatim>\<open>if\<close>.\<close>

definition nameMatches :: "string \<Rightarrow> string \<Rightarrow> bool" where
  "nameMatches fullName aiName =
     (normalized fullName = normalized aiName \<or>
      includesStr (normalized fullName) (normalized aiName) \<or>
      includesStr (normalized aiName) (normalized fullName))"

text \<open>
  The inner loop \<^verbatim>\<open>for (const record of attendanceRecords)\<close>: the first record
  that satisfies the condition ends it (\<^verbatim>\<open>break\<close>).
\<close>

fun matchRecord ::
  "(string \<Rightarrow> string \<Rightarrow> bool) \<Rightarrow> string \<Rightarrow> (attendance \<times> user option) list \<Rightarrow>
   js_error + user option" where
  "matchRecord cond aiName [] = Inr None"
| "matchRecord cond aiName ((r, None) # rs) = Inl TypeError"
| "matchRecord cond aiName ((r, Some u) # rs) =
     (if cond (fullNameOf u) aiName then Inr (Some u) else matchRecord cond aiName rs)"

text \<open>
  The outer loop \<^verbatim>\<open>for (const aiName of aiDetectedStudents)\<close>, with the two
  arrays it pushes to.
\<close>

fun matchLoop ::
  "string list \<Rightarrow> (attendance \<times> user option) list \<Rightarrow> objectId list \<Rightarrow> matchLogEntry list \<Rightarrow>
   js_error + objectId list \<times> matchLogEntry list" where
  "matchLoop [] recs ids entries = Inr (ids, entries)"
| "matchLoop (aiName # rest) recs ids entries =
     (case matchRecord nameMatches aiName recs of
        Inl e \<Rightarrow> Inl e
      | Inr (Some u) \<Rightarrow>
          matchLoop rest recs (ids @ [user_id u])
            (entries @ [\<lparr>detected = aiName, matched = Some (fullNameOf u), entry_status = ''Matched''\<rparr>])
      | Inr None \<Rightarrow>
          matchLoop rest recs ids
            (entries @ [\<lparr>detected = aiName, matched = None, entry_status = ''Not Found''\<rparr>]))"

definition verifyAttendanceWithAI ::
  "date \<Rightarrow> (objectId \<rightharpoonup> user) \<Rightarrow> aiRequest \<Rightarrow> attendance list \<Rightarrow>
   aiData reply \<times> attendance list" where
  "verifyAttendanceWithAI now users req store =
     (case ai_attendanceDate req of
        None \<Rightarrow> (Reply 400 False None, store)
      | Some d \<Rightarrow>
          if ai_sessionId req = [] then (Reply 400 False None, store)
          else if aiDetectedStudents req = [] then (Reply 400 False None, store)
          else
            let attendanceRecords = populate users (findAttendance (ai_sessionId req) d store)
            in if attendanceRecords = [] then (Reply 404 False None, store)
               else
                 (case matchLoop (aiDetectedStudents req) attendanceRecords [] [] of
                    Inl e \<Rightarrow> (Thrown e, store)
                  | Inr (ids, entries) \<Rightarrow>
                      let (store', modifiedCount) = updateMany (ai_sessionId req) d ids now store;
                          finalRecords = findAttendance (ai_sessionId req) d store'
                      in (Reply 200 True (Some
                            \<lparr>detectedCount = length (aiDetectedStudents req),
                             matchedCount = length ids,
                             updated = modifiedCount,
                             matchLog = entries,
                             summary_present =
                               length (filter (\<lambda>r. attendanceMark r = Present) finalRecords),
                             summary_absent =
                               length (filter (\<lambda>r. attendanceMark r = Absent) finalRecords),
                             summary_total = length finalRecords\<rparr>),
                          store')))"

subsection \<open>hybridAttendanceVerification\<close>

record aiReport =
  present_students :: "string list"
  attendance_details :: "string \<Rightarrow> real"

record hybridRequest =
  hy_sessionId :: string
  hy_attendanceDate :: "date option"
  hy_aiReport :: "aiReport option"

record verificationLogEntry =
  log_aiName :: string
  dbName :: "string option"
  log_confidence :: real
  log_status :: string

record hybridReport =
  aiDetected :: nat
  verified :: nat
  hy_updated :: nat
  verificationLog :: "verificationLogEntry list"
  hy_present :: nat
  hy_absent :: nat
  hy_total :: nat
  presentStudents :: "string list"
  absentStudents :: "string list"

text \<open>
  The early answer \<^verbatim>\<open>{updated: 0, detected: 0, verified: 0}\<close> for a report without
  students, and the full answer.
\<close>

datatype hybridData = NothingDetected | Verification hybridReport

text \<open>
  The condition of the hybrid inner loop. The two length tests read the strings as they
  were received (\<^verbatim>\<open>aiName.length\<close>, \<^verbatim>\<open>fullName.length\<close>), the comparisons the
  normalized ones.
\<close>

definition hybridMatches :: "string \<Rightarrow> string \<Rightarrow> bool" where
  "hybridMatches fullName aiName =
     (normalized fullName = normalized aiName \<or>
      (includesStr (normalized fullName) (normalized aiName) \<and> length aiName > 2) \<or>
      (includesStr (normalized aiName) (normalized fullName) \<and> length fullName > 2))"

fun hybridLoop ::
  "(string \<Rightarrow> real) \<Rightarrow> string list \<Rightarrow> (attendance \<times> user option) list \<Rightarrow> objectId list \<Rightarrow>
   verificationLogEntry list \<Rightarrow> js_error + objectId list \<times> verificationLogEntry list" where
  "hybridLoop conf [] recs ids entries = Inr (ids, entries)"
| "hybridLoop conf (name # rest) recs ids entries =
     (case matchRecord hybridMatches name recs of
        Inl e \<Rightarrow> Inl e
      | Inr (Some u) \<Rightarrow>
          hybridLoop conf rest recs (ids @ [user_id u])
            (entries @ [\<lparr>log_aiName = name, dbName = Some (fullNameOf u),
                          log_confidence = conf name, log_status = ''Verified''\<rparr>])
      | Inr None \<Rightarrow>
          hybridLoop conf rest recs ids
            (entries @ [\<lparr>log_aiName = name, dbName = None,
                          log_confidence = conf name, log_status = ''No match''\<rparr>]))"

text \<open>
  \<^verbatim>\<open>.map(r => `${r.student.firstName} ${r.student.lastName}`)\<close> over populated
  records.
\<close>

fun namesOf :: "(attendance \<times> user option) list \<Rightarrow> js_error + string list" where
  "namesOf [] = Inr []"
| "namesOf ((r, None) # rs) = Inl TypeError"
| "namesOf ((r, Some u) # rs) =
     (case namesOf rs of Inl e \<Rightarrow> Inl e | Inr ns \<Rightarrow> Inr (fullNameOf u # ns))"

definition hybridAttendanceVerification ::
  "date \<Rightarrow> (objectId \<rightharpoonup> user) \<Rightarrow> hybridRequest \<Rightarrow> attendance list \<Rightarrow>
   hybridData reply \<times> attendance list" where
  "hybridAttendanceVerification now users req store =
     (case (hy_attendanceDate req, hy_aiReport req) of
        (Some d, Some report) \<Rightarrow>
          if hy_sessionId req = [] then (Reply 400 False None, store)
          else if present_students report = []
          then (Reply 200 True (Some NothingDetected), store)
          else
            let attendanceRecords = populate users (findAttendance (hy_sessionId req) d store)
            in if attendanceRecords = [] then (Reply 404 False None, store)
               else
                 (case hybridLoop (attendance_details report) (present_students report)
                         attendanceRecords [] [] of
                    Inl e \<Rightarrow> (Thrown e, store)
                  | Inr (ids, entries) \<Rightarrow>
                      let (store', modifiedCount) = updateMany (hy_sessionId req) d ids now store;
                          finalRecords = populate users (findAttendance (hy_sessionId req) d store');
                          isPresent = (\<lambda>p. attendanceMark (fst p) = Present);
                          isAbsent = (\<lambda>p. attendanceMark (fst p) = Absent)
                      in (case (namesOf (filter isPresent finalRecords),
                                namesOf (filter isAbsent finalRecords)) of
                            (Inr presentList, Inr absentList) \<Rightarrow>
                              (Reply 200 True (Some (Verification
                                 \<lparr>aiDetected = length (present_students report),
                                  verified = length ids,
                                  hy_updated = modifiedCount,
                                  verificationLog = entries,
                                  hy_present = length (filter isPresent finalRecords),
                                  hy_absent = length (filter isAbsent finalRecords),
                                  hy_total = length finalRecords,
                                  presentStudents = presentList,
                                  absentStudents = absentList\<rparr>)),
                               store')
                          | (Inl e, _) \<Rightarrow> (Thrown e, store')
                          | (_, Inl e) \<Rightarrow> (Thrown e, store')))
      | _ \<Rightarrow> (Reply 400 False None, store))"

section \<open>Exams (models/Exam.js)\<close>

datatype examStatus = ExamScheduled | ExamOngoing | ExamCompleted | ExamCancelled

text \<open>
  Of an enrolment only the student reference is read, and of \<^verbatim>\<open>examSettings\<close>
  only \<^verbatim>\<open>faceVerificationRequired\<close>.
\<close>

record exam =
  exam_id :: objectId
  examCode :: string
  exam_status :: examStatus
  enrolledStudents :: "objectId list"
  faceVerificationRequired :: bool

definition toUpperChar :: "char \<Rightarrow> char" where
  "toUpperChar c =
     (case map_of (zip ''abcdefghijklmnopqrstuvwxyz'' ''ABCDEFGHIJKLMNOPQRSTUVWXYZ'') c of
        None \<Rightarrow> c
      | Some l \<Rightarrow> l)"

definition toUpperCase :: "string \<Rightarrow> string" where
  "toUpperCase s = map toUpperChar s"

section \<open>Monitoring sessions (controllers/verificationController.js)\<close>

text \<open>
  Modelled from the spec: the schema models/MonitoringSession.js is not among the
  sources. The fields are those the controllers read and write; the values of
  \<^verbatim>\<open>status\<close> are the four of the data model (\<^verbatim>\<open>active | paused | completed |
  terminated\<close>), which are also the only ones the controllers compare with. A field the
  controllers leave out when they create a session starts with the data model's initial
  value: status \<^verbatim>\<open>active\<close>, empty ledgers, no end time, not terminated, no final
  report.
\<close>

datatype sessionStatus = Active | Paused | Completed | Terminated

record verification =
  v_timestamp :: date
  result :: string
  confidence :: real
  image :: string

record violation =
  v_type :: string
  severity :: string
  description :: string
  evidence :: string
  timestamp :: "date option"

record finalReport =
  totalViolations :: nat
  riskScore :: real
  recommendation :: string
  report_notes :: string

record session =
  session_oid :: objectId
  sessionId :: string
  exam :: objectId
  student :: objectId
  status :: sessionStatus
  startTime :: date
  endTime :: "date option"
  faceVerifications :: "verification list"
  violations :: "violation list"
  isTerminated :: bool
  terminationReason :: "string option"
  sessionReport :: "finalReport option"

text \<open>
  The collection is a list in storage order. \<^verbatim>\<open>findOne\<close> answers the first
  document that satisfies the filter, \<^verbatim>\<open>save\<close> replaces the document of the same
  \<^verbatim>\<open>_id\<close>, \<^verbatim>\<open>create\<close> adds a document.
\<close>

definition findOneSession :: "string \<Rightarrow> session list \<Rightarrow> session option" where
  "findOneSession sid store = find (\<lambda>s. sessionId s = sid) store"

definition save :: "session \<Rightarrow> session list \<Rightarrow> session list" where
  "save s store = map (\<lambda>x. if session_oid x = session_oid s then s else x) store"

definition isLive :: "session \<Rightarrow> bool" where
  "isLive s = (status s = Active \<or> status s = Paused)"

definition findLiveSession :: "objectId \<Rightarrow> objectId \<Rightarrow> session list \<Rightarrow> session option" where
  "findLiveSession e u store = find (\<lambda>s. exam s = e \<and> student s = u \<and> isLive s) store"

definition newSession :: "objectId \<Rightarrow> string \<Rightarrow> date \<Rightarrow> objectId \<Rightarrow> objectId \<Rightarrow> session" where
  "newSession oid uuid now e u =
     \<lparr>session_oid = oid, sessionId = uuid, exam = e, student = u, status = Active,
      startTime = now, endTime = None, faceVerifications = [], violations = [],
      isTerminated = False, terminationReason = None, sessionReport = None\<rparr>"

text \<open>
  Modelled from the spec: the methods \<^verbatim>\<open>addViolation\<close> and
  \<^verbatim>\<open>addFaceVerification\<close> of the missing schema. The ledgers are pure append-only
  logs in insertion order: each method appends its argument to its ledger (and the
  document is saved).
\<close>

definition addViolation :: "violation \<Rightarrow> session \<Rightarrow> session" where
  "addViolation v s = s\<lparr>violations := violations s @ [v]\<rparr>"

definition addFaceVerification :: "verification \<Rightarrow> session \<Rightarrow> session" where
  "addFaceVerification v s = s\<lparr>faceVerifications := faceVerifications s @ [v]\<rparr>"

subsection \<open>verifyFace\<close>

text \<open>
  The face capability is mocked with random numbers in the source; the draws are inputs
  here: what \<^verbatim>\<open>detectFaces\<close> answered, and the similarity that
  \<^verbatim>\<open>compareFaces\<close> drew. \<^verbatim>\<open>JSON.parse\<close> of the stored descriptor either raises,
  or gives a falsy value, or gives a descriptor.
\<close>

record faceDetection =
  faceCount :: nat
  hasFace :: bool
  multipleFaces :: bool

datatype parsed = Unparsable | Falsy | Descriptor

record comparison =
  cmp_confidence :: real
  cmp_match :: bool

definition compareFaces :: "parsed \<Rightarrow> real \<Rightarrow> comparison" where
  "compareFaces descriptor1 similarity =
     (if descriptor1 \<noteq> Descriptor then \<lparr>cmp_confidence = 0, cmp_match = False\<rparr>
      else \<lparr>cmp_confidence = similarity, cmp_match = (similarity \<ge> 0.6)\<rparr>)"

definition truncated :: "string \<Rightarrow> string" where
  "truncated img = take 100 img @ ''...''"

definition verifyFace ::
  "date \<Rightarrow> (objectId \<rightharpoonup> user) \<Rightarrow> faceDetection \<Rightarrow> (string \<Rightarrow> parsed) \<Rightarrow> real \<Rightarrow>
   user \<Rightarrow> string \<Rightarrow> string \<Rightarrow> session list \<Rightarrow> (string \<times> real) reply \<times> session list" where
  "verifyFace now users faceDetection jsonParse similarity me sid img store =
     (case findOneSession sid store of
        None \<Rightarrow> (Reply 404 False None, store)
      | Some s \<Rightarrow>
          (case users (student s) of
             None \<Rightarrow> (Thrown TypeError, store)
           | Some stu \<Rightarrow>
               if student s \<noteq> user_id me then (Reply 403 False None, store)
               else
                 let verificationResult =
                       \<lparr>v_timestamp = now, result = ''failed'', confidence = 0,
                        image = truncated img\<rparr>
                 in if \<not> hasFace faceDetection then
                      let v = verificationResult\<lparr>result := ''no_face''\<rparr>
                      in (Reply 200 True (Some (result v, confidence v)),
                          save (addFaceVerification v s) store)
                    else if multipleFaces faceDetection then
                      let v = verificationResult\<lparr>result := ''multiple_faces''\<rparr>;
                          s1 = addViolation
                                 \<lparr>v_type = ''multiple_faces'', severity = ''high'',
                                  description = ''Multiple faces detected in frame'',
                                  evidence = truncated img, timestamp = None\<rparr> s
                      in (Reply 200 True (Some (result v, confidence v)),
                          save (addFaceVerification v s1) store)
                    else
                      (case faceData stu of
                         None \<Rightarrow>
                           let v = verificationResult\<lparr>result := ''no_reference''\<rparr>
                           in (Reply 200 True (Some (result v, confidence v)),
                               save (addFaceVerification v s) store)
                       | Some fd \<Rightarrow>
                           if fd = [] then
                             let v = verificationResult\<lparr>result := ''no_reference''\<rparr>
                             in (Reply 200 True (Some (result v, confidence v)),
                                 save (addFaceVerification v s) store)
                           else
                             (case jsonParse fd of
                                Unparsable \<Rightarrow> (Reply 500 False None, store)
                              | storedDescriptor \<Rightarrow>
                                  let cmp = compareFaces storedDescriptor similarity;
                                      v = verificationResult
                                            \<lparr>confidence := cmp_confidence cmp,
                                             result := (if cmp_match cmp then ''verified''
                                                        else ''failed'')\<rparr>;
                                      s1 = (if \<not> cmp_match cmp
                                            then addViolation
                                                   \<lparr>v_type = ''unauthorized_person'',
                                                    severity = ''critical'',
                                                    description =
                                                      ''Face verification failed - potential impersonation'',
                                                    evidence = truncated img, timestamp = None\<rparr> s
                                            else s)
                                  in (Reply 200 True (Some (result v, confidence v)),
                                      save (addFaceVerification v s1) store)))))"

subsection \<open>reportViolation\<close>

record violationRequest =
  vr_sessionId :: string
  vr_type :: string
  vr_severity :: string
  vr_description :: string
  vr_evidence :: string

definition mayAccess :: "user \<Rightarrow> session \<Rightarrow> bool" where
  "mayAccess me s = (student s = user_id me \<or> role me = Admin \<or> role me = Invigilator)"

definition reportViolation ::
  "date \<Rightarrow> user \<Rightarrow> violationRequest \<Rightarrow> session list \<Rightarrow> violation reply \<times> session list" where
  "reportViolation now me req store =
     (case findOneSession (vr_sessionId req) store of
        None \<Rightarrow> (Reply 404 False None, store)
      | Some s \<Rightarrow>
          if \<not> mayAccess me s then (Reply 403 False None, store)
          else
            let v = \<lparr>v_type = vr_type req, severity = vr_severity req,
                     description = vr_description req, evidence = vr_evidence req,
                     timestamp = Some now\<rparr>
            in (Reply 200 True (Some v), save (addViolation v s) store))"

subsection \<open>startMonitoringSession and joinExam\<close>

text \<open>
  \<^verbatim>\<open>Exam.findById\<close> and \<^verbatim>\<open>Exam.findOne({examCode})\<close> over the collection of
  exams. The fresh \<^verbatim>\<open>_id\<close>, the token \<^verbatim>\<open>uuidv4()\<close> and the time are inputs.
\<close>

definition findExamById :: "objectId \<Rightarrow> exam list \<Rightarrow> exam option" where
  "findExamById i exams = find (\<lambda>e. exam_id e = i) exams"

definition findExamByCode :: "string \<Rightarrow> exam list \<Rightarrow> exam option" where
  "findExamByCode c exams = find (\<lambda>e. examCode e = c) exams"

definition startMonitoringSession ::
  "objectId \<Rightarrow> string \<Rightarrow> date \<Rightarrow> exam list \<Rightarrow> user \<Rightarrow> objectId \<Rightarrow> session list \<Rightarrow>
   session reply \<times> session list" where
  "startMonitoringSession oid uuid now exams me examId store =
     (case findExamById examId exams of
        None \<Rightarrow> (Reply 404 False None, store)
      | Some ex \<Rightarrow>
          if exam_status ex \<noteq> ExamOngoing then (Reply 400 False None, store)
          else if user_id me \<notin> set (enrolledStudents ex) then (Reply 403 False None, store)
          else
            (case findLiveSession examId (user_id me) store of
               Some existingSession \<Rightarrow> (Reply 200 True (Some existingSession), store)
             | None \<Rightarrow>
                 let s = newSession oid uuid now examId (user_id me)
                 in (Reply 201 True (Some s), store @ [s])))"

definition joinExam ::
  "objectId \<Rightarrow> string \<Rightarrow> date \<Rightarrow> exam list \<Rightarrow> user \<Rightarrow> string \<Rightarrow> session list \<Rightarrow>
   (exam \<times> session) reply \<times> session list" where
  "joinExam oid uuid now exams me examCodeParam store =
     (case findExamByCode (toUpperCase examCodeParam) exams of
        None \<Rightarrow> (Reply 404 False None, store)
      | Some ex \<Rightarrow>
          if user_id me \<notin> set (enrolledStudents ex) then (Reply 403 False None, store)
          else if exam_status ex \<noteq> ExamOngoing then (Reply 400 False None, store)
          else if faceVerificationRequired ex \<and> verificationStatus me \<noteq> Verified
          then (Reply 400 False None, store)
          else
            (case findLiveSession (exam_id ex) (user_id me) store of
               Some existingSession \<Rightarrow> (Reply 200 True (Some (ex, existingSession)), store)
             | None \<Rightarrow>
                 let s = newSession oid uuid now (exam_id ex) (user_id me)
                 in (Reply 200 True (Some (ex, s)), store @ [s])))"

subsection \<open>endMonitoringSession\<close>

text \<open>The decimal text of a number, for the template of the report's notes.\<close>

function showNat :: "nat \<Rightarrow> string" where
  "showNat n =
     (if n < 10 then [''0123456789'' ! n]
      else showNat (n div 10) @ [''0123456789'' ! (n mod 10)])"
  by pat_completeness auto
termination
  by (relation "measure id") auto

declare showNat.simps [simp del]

definition recommend :: "real \<Rightarrow> string" where
  "recommend score =
     (if score > 70 then ''reject'' else if score > 40 then ''review'' else ''accept'')"

text \<open>
  The method \<^verbatim>\<open>calculateRiskScore\<close> belongs to the missing schema; it is the
  parameter \<open>calculateRiskScore\<close>.
\<close>

definition endMonitoringSession ::
  "date \<Rightarrow> (session \<Rightarrow> real) \<Rightarrow> user \<Rightarrow> string \<Rightarrow> session list \<Rightarrow>
   session reply \<times> session list" where
  "endMonitoringSession now calculateRiskScore me sid store =
     (case findOneSession sid store of
        None \<Rightarrow> (Reply 404 False None, store)
      | Some s \<Rightarrow>
          if student s \<noteq> user_id me then (Reply 403 False None, store)
          else if status s = Completed \<or> status s = Terminated
          then (Reply 400 False None, store)
          else
            let score = calculateRiskScore s;
                s' = s\<lparr>status := Completed,
                       endTime := Some now,
                       sessionReport := Some
                         \<lparr>totalViolations = length (violations s),
                          riskScore = score,
                          recommendation = recommend score,
                          report_notes = ''Session completed with '' @
                            showNat (length (violations s)) @ '' violations''\<rparr>\<rparr>
            in (Reply 200 True (Some s'), save s' store))"

subsection \<open>updateSessionStatus\<close>

text \<open>\<^verbatim>\<open>reason || "Session terminated"\<close>: a missing or empty reason is falsy.\<close>

definition reasonOrDefault :: "string option \<Rightarrow> string" where
  "reasonOrDefault reason =
     (case reason of
        None \<Rightarrow> ''Session terminated''
      | Some r \<Rightarrow> if r = [] then ''Session terminated'' else r)"

definition updateSessionStatus ::
  "date \<Rightarrow> user \<Rightarrow> string \<Rightarrow> sessionStatus \<Rightarrow> string option \<Rightarrow> session list \<Rightarrow>
   session reply \<times> session list" where
  "updateSessionStatus now me sid newStatus reason store =
     (case findOneSession sid store of
        None \<Rightarrow> (Reply 404 False None, store)
      | Some s \<Rightarrow>
          if \<not> mayAccess me s then (Reply 403 False None, store)
          else
            let s1 = s\<lparr>status := newStatus\<rparr>;
                s2 = (if newStatus = Terminated
                      then s1\<lparr>isTerminated := True,
                              terminationReason := Some (reasonOrDefault reason),
                              endTime := Some now\<rparr>
                      else if newStatus = Completed then s1\<lparr>endTime := Some now\<rparr>
                      else s1)
            in (Reply 200 True (Some s2), save s2 store))"

section \<open>Reconciliation as the specification words it\<close>

text \<open>
  A roster entry satisfies a reported label when its normalized full name equals the
  normalized label, or contains it, or is contained in it. The verdict of a label is
  Matched with the first entry of the roster, in its order, that satisfies the label,
  and Not Found when no entry does. The identities marked are those of the matched
  entries.
\<close>

definition spec_satisfies :: "string \<Rightarrow> user \<Rightarrow> bool" where
  "spec_satisfies label u =
     (normalized (fullNameOf u) = normalized label \<or>
      includesStr (normalized (fullNameOf u)) (normalized label) \<or>
      includesStr (normalized label) (normalized (fullNameOf u)))"

definition spec_verdict :: "user list \<Rightarrow> string \<Rightarrow> matchLogEntry" where
  "spec_verdict roster label =
     (case find (spec_satisfies label) roster of
        None \<Rightarrow> \<lparr>detected = label, matched = None, entry_status = ''Not Found''\<rparr>
      | Some u \<Rightarrow> \<lparr>detected = label, matched = Some (fullNameOf u), entry_status = ''Matched''\<rparr>)"

definition spec_matchedIds :: "user list \<Rightarrow> string list \<Rightarrow> objectId list" where
  "spec_matchedIds roster labels =
     List.map_filter (\<lambda>label. map_option user_id (find (spec_satisfies label) roster)) labels"

text \<open>
  A mark is monotonic from one collection to the next when a record that was Present is
  the same record afterwards, and a record that was Absent is either the same or has
  become Present with the time of the operation as markedAt.
\<close>

definition monotonicStep :: "date \<Rightarrow> attendance \<Rightarrow> attendance \<Rightarrow> bool" where
  "monotonicStep now r r' =
     (if attendanceMark r = Present then r' = r
      else r' = r \<or> r' = r\<lparr>attendanceMark := Present, markedAt := Some now\<rparr>)"

section \<open>Sample data\<close>

text \<open>Two students, an invigilator, an ongoing exam and three sessions, for the examples.\<close>

definition jane :: user where
  "jane = \<lparr>user_id = 1, firstName = ''Jane'', lastName = ''Doe'', role = Student,
           verificationStatus = Verified, faceData = None\<rparr>"

definition janeSmith :: user where
  "janeSmith = \<lparr>user_id = 2, firstName = ''Jane'', lastName = ''Doe Smith'', role = Student,
                verificationStatus = Pending, faceData = Some ''[0.25]''\<rparr>"

definition john :: user where
  "john = \<lparr>user_id = 3, firstName = ''John'', lastName = ''Smith'', role = Student,
           verificationStatus = Verified, faceData = None\<rparr>"

definition proctor :: user where
  "proctor = \<lparr>user_id = 7, firstName = ''Ann'', lastName = ''Lee'', role = Invigilator,
              verificationStatus = Verified, faceData = None\<rparr>"

definition sampleUsers :: "objectId \<rightharpoonup> user" where
  "sampleUsers = [1 \<mapsto> jane, 2 \<mapsto> janeSmith, 3 \<mapsto> john, 7 \<mapsto> proctor]"

definition sampleExam :: exam where
  "sampleExam = \<lparr>exam_id = 100, examCode = ''CS101'', exam_status = ExamOngoing,
                 enrolledStudents = [1, 2], faceVerificationRequired = True\<rparr>"

definition openExam :: exam where
  "openExam = \<lparr>exam_id = 101, examCode = ''MA202'', exam_status = ExamOngoing,
               enrolledStudents = [1, 2], faceVerificationRequired = False\<rparr>"

definition critical :: violation where
  "critical = \<lparr>v_type = ''unauthorized_person'', severity = ''critical'',
               description = ''impersonation'', evidence = ''img'', timestamp = Some 6\<rparr>"

definition liveSession :: session where
  "liveSession = \<lparr>session_oid = 10, sessionId = ''s-10'', exam = 100, student = 1,
                  status = Active, startTime = 5, endTime = None, faceVerifications = [],
                  violations = [critical, critical], isTerminated = False,
                  terminationReason = None, sessionReport = None\<rparr>"

definition closedSession :: session where
  "closedSession = \<lparr>session_oid = 11, sessionId = ''s-11'', exam = 100, student = 2,
                    status = Completed, startTime = 5, endTime = Some 8, faceVerifications = [],
                    violations = [critical], isTerminated = False, terminationReason = None,
                    sessionReport = Some \<lparr>totalViolations = 1, riskScore = 50,
                      recommendation = ''review'',
                      report_notes = ''Session completed with 1 violations''\<rparr>\<rparr>"

text \<open>A scoring method for the examples: fifty points for each violation.\<close>

definition sampleScore :: "session \<Rightarrow> real" where
  "sampleScore s = 50 * real (length (violations s))"

definition sampleAttendance :: "attendance list" where
  "sampleAttendance =
     [\<lparr>att_student = 1, att_sessionId = ''room-1'', attendanceDate = 20, studentName = ''Jane Doe'',
       attendanceMark = Present, markedAt = Some 21\<rparr>,
      \<lparr>att_student = 2, att_sessionId = ''room-1'', attendanceDate = 20,
       studentName = ''Jane Doe Smith'', attendanceMark = Absent, markedAt = None\<rparr>,
      \<lparr>att_student = 3, att_sessionId = ''room-1'', attendanceDate = 20,
       studentName = ''John Smith'', attendanceMark = Absent, markedAt = None\<rparr>]"

definition janeRequest :: aiRequest where
  "janeRequest = \<lparr>ai_sessionId = ''room-1'', ai_attendanceDate = Some 20,
                  aiDetectedStudents = [''jane doe'']\<rparr>"

definition strangerRequest :: aiRequest where
  "strangerRequest = \<lparr>ai_sessionId = ''room-1'', ai_attendanceDate = Some 20,
                      aiDetectedStudents = [''nonexistent'']\<rparr>"

definition markRequestJane :: markRequest where
  "markRequestJane = \<lparr>mark_sessionId = ''room-1'', mark_attendanceDate = Some 20,
                      presentStudentIds = [1]\<rparr>"

definition paddedReport :: hybridRequest where
  "paddedReport = \<lparr>hy_sessionId = ''room-1'', hy_attendanceDate = Some 20,
                   hy_aiReport = Some \<lparr>present_students = [''Jo ''],
                                        attendance_details = (\<lambda>n. 1)\<rparr>\<rparr>"

definition oneFace :: faceDetection where
  "oneFace = \<lparr>faceCount = 1, hasFace = True, multipleFaces = False\<rparr>"

definition tabSwitch :: violationRequest where
  "tabSwitch = \<lparr>vr_sessionId = ''s-11'', vr_type = ''tab_switch'', vr_severity = ''low'',
                vr_description = ''left the exam tab'', vr_evidence = ''shot-1''\<rparr>"

section \<open>Facts about the session collection\<close>

lemma findOne_save:
  assumes "findOneSession sid store = Some s" "sessionId s' = sid" "session_oid s' = session_oid s"
  shows "findOneSession sid (save s' store) = Some s'"
  using assms unfolding findOneSession_def save_def
  by (induction store) (auto split: if_splits)

lemma findOne_sessionId: "findOneSession sid store = Some s \<Longrightarrow> sessionId s = sid"
  unfolding findOneSession_def by (induction store) (auto split: if_splits)

lemma live_sample:
  "findOneSession ''s-10'' [liveSession, closedSession] = Some liveSession"
  "student liveSession = user_id jane"
  "isLive liveSession"
  by (simp_all add: findOneSession_def liveSession_def closedSession_def jane_def isLive_def)

lemma closed_sample:
  "findOneSession ''s-11'' [liveSession, closedSession] = Some closedSession"
  "student closedSession = user_id janeSmith"
  "status closedSession = Completed"
  by (simp_all add: findOneSession_def liveSession_def closedSession_def janeSmith_def)

section \<open>The recommendation of the final report\<close>

text \<open>
  C1: ending a session of one's own that is active or paused succeeds and stores a final
  report whose risk score is the one the scoring method computes, and whose
  recommendation follows from that score by three bands: above 70 it is "reject", above
  40 and up to 70 it is "review", up to 40 it is "accept".
\<close>

theorem finalReport_recommendation_bands:
  assumes "findOneSession sid store = Some s" and "student s = user_id me" and "isLive s"
  shows "\<exists>s' r. endMonitoringSession now calculateRiskScore me sid store =
                   (Reply 200 True (Some s'), save s' store) \<and>
                 sessionReport s' = Some r \<and> riskScore r = calculateRiskScore s \<and>
                 (riskScore r > 70 \<longrightarrow> recommendation r = ''reject'') \<and>
                 (40 < riskScore r \<and> riskScore r \<le> 70 \<longrightarrow> recommendation r = ''review'') \<and>
                 (riskScore r \<le> 40 \<longrightarrow> recommendation r = ''accept'')"
proof -
  from assms(3) have "status s \<noteq> Completed" "status s \<noteq> Terminated"
    by (auto simp: isLive_def)
  with assms(1,2) show ?thesis
    by (simp add: endMonitoringSession_def Let_def recommend_def)
qed

text \<open>
  The scenario of two critical violations: Jane ends her session, the score is 100 and
  the recommendation "reject".
\<close>

theorem finalReport_recommendation_bands_witness:
  "findOneSession ''s-10'' [liveSession, closedSession] = Some liveSession \<and>
   student liveSession = user_id jane \<and> isLive liveSession \<and>
   (\<exists>s' r. endMonitoringSession 9 sampleScore jane ''s-10'' [liveSession, closedSession] =
              (Reply 200 True (Some s'), save s' [liveSession, closedSession]) \<and>
            sessionReport s' = Some r \<and> riskScore r = 100 \<and> recommendation r = ''reject'')"
proof -
  have sc: "sampleScore liveSession = 100"
    by (simp add: sampleScore_def liveSession_def)
  from finalReport_recommendation_bands [OF live_sample, of 9 sampleScore]
  show ?thesis using live_sample sc by fastforce
qed

section \<open>Finalizing a session\<close>

text \<open>
  What endMonitoringSession does by itself: the end of one's own active or paused
  session stores a final report whose totalViolations is the length of the violations
  ledger, sets the status to completed and the end time, and ending it again directly
  afterwards is refused with 400 and writes nothing; a session that is completed or
  terminated is refused in the same way.
\<close>

lemma endMonitoringSession_live_or_refused:
  assumes "findOneSession sid store = Some s" and "student s = user_id me"
  shows "(isLive s \<longrightarrow>
            (\<exists>r s'. s' = s\<lparr>status := Completed, endTime := Some now, sessionReport := Some r\<rparr> \<and>
                 totalViolations r = length (violations s) \<and>
                 endMonitoringSession now calculateRiskScore me sid store =
                   (Reply 200 True (Some s'), save s' store) \<and>
                 endMonitoringSession now' calculateRiskScore' me sid (save s' store) =
                   (Reply 400 False None, save s' store))) \<and>
         (status s = Completed \<or> status s = Terminated \<longrightarrow>
            endMonitoringSession now calculateRiskScore me sid store = (Reply 400 False None, store))"
proof (intro conjI impI)
  assume live: "isLive s"
  define r where "r = \<lparr>totalViolations = length (violations s), riskScore = calculateRiskScore s,
      recommendation = recommend (calculateRiskScore s),
      report_notes = ''Session completed with '' @ showNat (length (violations s)) @ '' violations''\<rparr>"
  define s' where "s' = s\<lparr>status := Completed, endTime := Some now, sessionReport := Some r\<rparr>"
  from live have nt: "status s \<noteq> Completed" "status s \<noteq> Terminated"
    by (auto simp: isLive_def)
  have first: "endMonitoringSession now calculateRiskScore me sid store =
      (Reply 200 True (Some s'), save s' store)"
    using assms nt by (simp add: endMonitoringSession_def Let_def r_def s'_def)
  have "findOneSession sid (save s' store) = Some s'"
    using assms(1) findOne_sessionId [OF assms(1)] by (intro findOne_save) (simp_all add: s'_def)
  then have second: "endMonitoringSession now' calculateRiskScore' me sid (save s' store) =
      (Reply 400 False None, save s' store)"
    using assms(2) by (simp add: endMonitoringSession_def s'_def)
  have "totalViolations r = length (violations s)" by (simp add: r_def)
  with first second s'_def
  show "\<exists>r s'. s' = s\<lparr>status := Completed, endTime := Some now, sessionReport := Some r\<rparr> \<and>
                 totalViolations r = length (violations s) \<and>
                 endMonitoringSession now calculateRiskScore me sid store =
                   (Reply 200 True (Some s'), save s' store) \<and>
                 endMonitoringSession now' calculateRiskScore' me sid (save s' store) =
                   (Reply 400 False None, save s' store)"
    by blast
next
  assume "status s = Completed \<or> status s = Terminated"
  with assms show "endMonitoringSession now calculateRiskScore me sid store = (Reply 400 False None, store)"
    by (auto simp: endMonitoringSession_def)
qed

lemma showNat_2: "showNat 2 = ''2''"
  by (simp add: showNat.simps)

text \<open>
  C6: the final report is to be stored exactly once, and a finalized session is to stay
  as it is. The code at the failing input: Jane Smith's session is completed and holds
  the report of its first end (one violation, score 50, "review"). She sets the status
  back to active with updateSessionStatus, which is accepted; ending the session again
  is then accepted too, with 200 instead of the refusal 400, and writes the end time and
  the report anew. With one violation reported in between, the second report (two
  violations, score 100, "reject") replaces the first.
\<close>

theorem finalReport_rewritten_after_reopen:
  "sessionReport closedSession =
     Some \<lparr>totalViolations = 1, riskScore = 50, recommendation = ''review'',
           report_notes = ''Session completed with 1 violations''\<rparr> \<and>
   endTime closedSession = Some 8 \<and>
   snd (updateSessionStatus 9 janeSmith ''s-11'' Active None [liveSession, closedSession]) =
     [liveSession, closedSession\<lparr>status := Active\<rparr>] \<and>
   endMonitoringSession 12 sampleScore janeSmith ''s-11''
       [liveSession, closedSession\<lparr>status := Active\<rparr>] =
     (Reply 200 True (Some (closedSession\<lparr>status := Completed, endTime := Some 12\<rparr>)),
      [liveSession, closedSession\<lparr>status := Completed, endTime := Some 12\<rparr>]) \<and>
   map sessionReport
     (snd (endMonitoringSession 12 sampleScore janeSmith ''s-11''
        (snd (reportViolation 10 janeSmith tabSwitch
           [liveSession, closedSession\<lparr>status := Active\<rparr>])))) =
     [None,
      Some \<lparr>totalViolations = 2, riskScore = 100, recommendation = ''reject'',
            report_notes = ''Session completed with 2 violations''\<rparr>]"
  by (simp add: updateSessionStatus_def endMonitoringSession_def reportViolation_def
      findOneSession_def mayAccess_def save_def addViolation_def Let_def recommend_def
      sampleScore_def showNat.simps liveSession_def closedSession_def janeSmith_def tabSwitch_def)

section \<open>Explicit status transitions\<close>

text \<open>
  C7, as the claim states it, fails: a transition to terminated is accepted without a
  reason. Jane terminates her session and supplies none; the answer is a success and the
  stored reason is the default text.
\<close>

theorem updateSessionStatus_no_reason_counterexample:
  "updateSessionStatus 9 jane ''s-10'' Terminated None [liveSession, closedSession] =
     (Reply 200 True
        (Some (liveSession\<lparr>status := Terminated, isTerminated := True,
                 terminationReason := Some ''Session terminated'', endTime := Some 9\<rparr>)),
      [liveSession\<lparr>status := Terminated, isTerminated := True,
         terminationReason := Some ''Session terminated'', endTime := Some 9\<rparr>, closedSession])"
  by (simp add: updateSessionStatus_def findOneSession_def mayAccess_def save_def Let_def
      reasonOrDefault_def liveSession_def closedSession_def jane_def)

text \<open>
  C7, amended: for a caller who may access the session, a transition to terminated is
  accepted with or without a reason; it sets isTerminated and the end time, and stores
  as terminationReason the supplied reason when it is not empty and the text
  "Session terminated" when the reason is missing or empty. A transition to completed
  sets the end time.
\<close>

theorem updateSessionStatus_terminal_transitions:
  assumes "findOneSession sid store = Some s" and "mayAccess me s"
  shows "updateSessionStatus now me sid Terminated reason store =
           (Reply 200 True
              (Some (s\<lparr>status := Terminated, isTerminated := True,
                       terminationReason := Some (reasonOrDefault reason), endTime := Some now\<rparr>)),
            save (s\<lparr>status := Terminated, isTerminated := True,
                    terminationReason := Some (reasonOrDefault reason), endTime := Some now\<rparr>) store) \<and>
         (\<forall>r. reason = Some r \<and> r \<noteq> [] \<longrightarrow> reasonOrDefault reason = r) \<and>
         (reason = None \<or> reason = Some [] \<longrightarrow> reasonOrDefault reason = ''Session terminated'') \<and>
         updateSessionStatus now me sid Completed reason store =
           (Reply 200 True (Some (s\<lparr>status := Completed, endTime := Some now\<rparr>)),
            save (s\<lparr>status := Completed, endTime := Some now\<rparr>) store)"
  using assms
  by (auto simp: updateSessionStatus_def Let_def reasonOrDefault_def split: option.splits)

text \<open>
  An invigilator terminates Jane's session with the reason "left the room"; without a
  reason the default text is stored; the invigilator completes the session.
\<close>

theorem updateSessionStatus_terminal_transitions_witness:
  "findOneSession ''s-10'' [liveSession, closedSession] = Some liveSession \<and>
   mayAccess proctor liveSession \<and>
   updateSessionStatus 9 proctor ''s-10'' Terminated (Some ''left the room'')
       [liveSession, closedSession] =
     (Reply 200 True
        (Some (liveSession\<lparr>status := Terminated, isTerminated := True,
                 terminationReason := Some ''left the room'', endTime := Some 9\<rparr>)),
      save (liveSession\<lparr>status := Terminated, isTerminated := True,
              terminationReason := Some ''left the room'', endTime := Some 9\<rparr>)
        [liveSession, closedSession]) \<and>
   reasonOrDefault None = ''Session terminated'' \<and>
   updateSessionStatus 9 proctor ''s-10'' Completed None [liveSession, closedSession] =
     (Reply 200 True (Some (liveSession\<lparr>status := Completed, endTime := Some 9\<rparr>)),
      save (liveSession\<lparr>status := Completed, endTime := Some 9\<rparr>) [liveSession, closedSession])"
proof -
  have acc: "mayAccess proctor liveSession"
    by (simp add: mayAccess_def proctor_def)
  from updateSessionStatus_terminal_transitions [OF live_sample(1) acc, of 9 "Some ''left the room''"]
    updateSessionStatus_terminal_transitions [OF live_sample(1) acc, of 9 None]
  show ?thesis using live_sample(1) acc by simp
qed

section \<open>Sessions that are completed or terminated\<close>

text \<open>
  C2: a session that is completed or terminated is to refuse every transition to a
  non-terminal state and to stay as it is. The code at the failing input: Jane Smith
  sets her completed session to active; updateSessionStatus, which has no test of the
  current status, answers success and stores the status active.
\<close>

theorem updateSessionStatus_reopens_terminal_session:
  "status closedSession = Completed \<and>
   updateSessionStatus 9 janeSmith ''s-11'' Active None [liveSession, closedSession] =
     (Reply 200 True (Some (closedSession\<lparr>status := Active\<rparr>)),
      [liveSession, closedSession\<lparr>status := Active\<rparr>])"
  by (simp add: updateSessionStatus_def findOneSession_def mayAccess_def save_def Let_def
      liveSession_def closedSession_def janeSmith_def)

section \<open>Starting or resuming a session\<close>


lemma findLive_append:
  "findLiveSession e u store = None \<Longrightarrow> exam s = e \<Longrightarrow> student s = u \<Longrightarrow> isLive s \<Longrightarrow>
   findLiveSession e u (store @ [s]) = Some s"
  unfolding findLiveSession_def by (induction store) (auto split: if_splits)

lemma newSession_fields:
  "sessionId (newSession oid uuid now e u) = uuid"
  "exam (newSession oid uuid now e u) = e"
  "student (newSession oid uuid now e u) = u"
  "status (newSession oid uuid now e u) = Active"
  "violations (newSession oid uuid now e u) = []"
  "faceVerifications (newSession oid uuid now e u) = []"
  "isLive (newSession oid uuid now e u)"
  by (simp_all add: newSession_def isLive_def)

lemma start_resume:
  assumes "findExamById examId exams = Some ex" and "exam_status ex = ExamOngoing"
    and "user_id me \<in> set (enrolledStudents ex)"
    and "findLiveSession examId (user_id me) store = Some s"
  shows "startMonitoringSession oid uuid now exams me examId store = (Reply 200 True (Some s), store)"
  using assms by (simp add: startMonitoringSession_def)

lemma start_create:
  assumes "findExamById examId exams = Some ex" and "exam_status ex = ExamOngoing"
    and "user_id me \<in> set (enrolledStudents ex)"
    and "findLiveSession examId (user_id me) store = None"
  shows "startMonitoringSession oid uuid now exams me examId store =
           (Reply 201 True (Some (newSession oid uuid now examId (user_id me))),
            store @ [newSession oid uuid now examId (user_id me)])"
  using assms by (simp add: startMonitoringSession_def Let_def)

lemma join_resume:
  assumes "findExamByCode (toUpperCase c) exams = Some ex" and "exam_status ex = ExamOngoing"
    and "user_id me \<in> set (enrolledStudents ex)"
    and "faceVerificationRequired ex \<longrightarrow> verificationStatus me = Verified"
    and "findLiveSession (exam_id ex) (user_id me) store = Some s"
  shows "joinExam oid uuid now exams me c store = (Reply 200 True (Some (ex, s)), store)"
  using assms by (auto simp: joinExam_def)

lemma join_create:
  assumes "findExamByCode (toUpperCase c) exams = Some ex" and "exam_status ex = ExamOngoing"
    and "user_id me \<in> set (enrolledStudents ex)"
    and "faceVerificationRequired ex \<longrightarrow> verificationStatus me = Verified"
    and "findLiveSession (exam_id ex) (user_id me) store = None"
  shows "joinExam oid uuid now exams me c store =
           (Reply 200 True (Some (ex, newSession oid uuid now (exam_id ex) (user_id me))),
            store @ [newSession oid uuid now (exam_id ex) (user_id me)])"
  using assms by (auto simp: joinExam_def Let_def)

lemma sample_exams:
  "findExamById 100 [sampleExam, openExam] = Some sampleExam"
  "findExamByCode (toUpperCase ''ma202'') [sampleExam, openExam] = Some openExam"
  "findExamByCode (toUpperCase ''cs101'') [sampleExam, openExam] = Some sampleExam"
  "exam_status sampleExam = ExamOngoing" "exam_status openExam = ExamOngoing"
  "user_id jane \<in> set (enrolledStudents sampleExam)"
  "user_id janeSmith \<in> set (enrolledStudents sampleExam)"
  "user_id jane \<in> set (enrolledStudents openExam)"
  "user_id janeSmith \<in> set (enrolledStudents openExam)"
  by (simp_all add: findExamById_def findExamByCode_def sampleExam_def openExam_def jane_def
      janeSmith_def toUpperCase_def toUpperChar_def)

lemma sample_live:
  "findLiveSession 100 (user_id jane) [liveSession, closedSession] = Some liveSession"
  "findLiveSession 100 (user_id janeSmith) [liveSession, closedSession] = None"
  "findLiveSession (exam_id openExam) (user_id janeSmith) [liveSession, closedSession] = None"
  "findLiveSession (exam_id sampleExam) (user_id jane) [liveSession, closedSession] = Some liveSession"
  by (simp_all add: findLiveSession_def liveSession_def closedSession_def jane_def janeSmith_def
      isLive_def openExam_def sampleExam_def)


lemma sample_gate:
  "faceVerificationRequired sampleExam \<longrightarrow> verificationStatus jane = Verified"
  "faceVerificationRequired openExam \<longrightarrow> verificationStatus janeSmith = Verified"
  by (simp_all add: jane_def openExam_def)

text \<open>
  C3, as the claim states it, fails for joinExam: the face verification gate stands
  before the search for a live session. Jane Smith, whose verification is pending,
  starts a monitoring session for the exam (startMonitoringSession has no gate) and so
  holds an active session; her request to join the same exam is answered with 400, not
  with that session.
\<close>

theorem joinExam_gate_before_resume_counterexample:
  "startMonitoringSession 12 ''u-1'' 9 [sampleExam, openExam] janeSmith 100
       [liveSession, closedSession] =
     (Reply 201 True (Some (newSession 12 ''u-1'' 9 100 (user_id janeSmith))),
      [liveSession, closedSession, newSession 12 ''u-1'' 9 100 (user_id janeSmith)]) \<and>
   findLiveSession (exam_id sampleExam) (user_id janeSmith)
       [liveSession, closedSession, newSession 12 ''u-1'' 9 100 (user_id janeSmith)] =
     Some (newSession 12 ''u-1'' 9 100 (user_id janeSmith)) \<and>
   joinExam 13 ''u-2'' 10 [sampleExam, openExam] janeSmith ''cs101''
       [liveSession, closedSession, newSession 12 ''u-1'' 9 100 (user_id janeSmith)] =
     (Reply 400 False None,
      [liveSession, closedSession, newSession 12 ''u-1'' 9 100 (user_id janeSmith)])"
proof -
  have a: "startMonitoringSession 12 ''u-1'' 9 [sampleExam, openExam] janeSmith 100
       [liveSession, closedSession] =
     (Reply 201 True (Some (newSession 12 ''u-1'' 9 100 (user_id janeSmith))),
      [liveSession, closedSession, newSession 12 ''u-1'' 9 100 (user_id janeSmith)])"
    using start_create [OF sample_exams(1) sample_exams(4) sample_exams(7) sample_live(2),
        of 12 "''u-1''" 9]
    by simp
  have b: "findLiveSession (exam_id sampleExam) (user_id janeSmith)
       [liveSession, closedSession, newSession 12 ''u-1'' 9 100 (user_id janeSmith)] =
     Some (newSession 12 ''u-1'' 9 100 (user_id janeSmith))"
    by (simp add: findLiveSession_def liveSession_def closedSession_def janeSmith_def
        sampleExam_def newSession_def isLive_def)
  have c: "joinExam 13 ''u-2'' 10 [sampleExam, openExam] janeSmith ''cs101''
       [liveSession, closedSession, newSession 12 ''u-1'' 9 100 (user_id janeSmith)] =
     (Reply 400 False None,
      [liveSession, closedSession, newSession 12 ''u-1'' 9 100 (user_id janeSmith)])"
    unfolding joinExam_def sample_exams(3)
    by (simp add: sampleExam_def janeSmith_def)
  from a b c show ?thesis by blast
qed

text \<open>
  C3, amended: for an ongoing exam and an enrolled student, starting a monitoring
  session is idempotent, and so is joining the exam by its code when the face
  verification gate is passed (the exam does not require face verification, or the
  student is verified). When the student has an active or paused session for the exam,
  that session is answered as it is, with success, and the collection is unchanged.
  Only when there is none a session is created: active, with empty ledgers and the
  generated token as sessionId; a repeated call then answers this very session and
  creates nothing. When the gate is not passed, joinExam answers 400 and neither answers
  nor creates a session, whether a live one exists or not.
\<close>

theorem startOrResume_idempotent:
  assumes "exam_status ex = ExamOngoing" and "user_id me \<in> set (enrolledStudents ex)"
  shows "(findExamById examId exams = Some ex \<longrightarrow>
           (\<forall>s. findLiveSession examId (user_id me) store = Some s \<longrightarrow>
              startMonitoringSession oid uuid now exams me examId store =
                (Reply 200 True (Some s), store)) \<and>
           (findLiveSession examId (user_id me) store = None \<longrightarrow>
              (\<exists>s. s = newSession oid uuid now examId (user_id me) \<and>
                   sessionId s = uuid \<and> status s = Active \<and>
                   violations s = [] \<and> faceVerifications s = [] \<and>
                   startMonitoringSession oid uuid now exams me examId store =
                     (Reply 201 True (Some s), store @ [s]) \<and>
                   startMonitoringSession oid' uuid' now' exams me examId (store @ [s]) =
                     (Reply 200 True (Some s), store @ [s])))) \<and>
         (findExamByCode (toUpperCase c) exams = Some ex \<and>
          (faceVerificationRequired ex \<longrightarrow> verificationStatus me = Verified) \<longrightarrow>
           (\<forall>s. findLiveSession (exam_id ex) (user_id me) store = Some s \<longrightarrow>
              joinExam oid uuid now exams me c store = (Reply 200 True (Some (ex, s)), store)) \<and>
           (findLiveSession (exam_id ex) (user_id me) store = None \<longrightarrow>
              (\<exists>s. s = newSession oid uuid now (exam_id ex) (user_id me) \<and>
                   sessionId s = uuid \<and> status s = Active \<and>
                   violations s = [] \<and> faceVerifications s = [] \<and>
                   joinExam oid uuid now exams me c store =
                     (Reply 200 True (Some (ex, s)), store @ [s]) \<and>
                   joinExam oid' uuid' now' exams me c (store @ [s]) =
                     (Reply 200 True (Some (ex, s)), store @ [s])))) \<and>
         (findExamByCode (toUpperCase c) exams = Some ex \<and>
          faceVerificationRequired ex \<and> verificationStatus me \<noteq> Verified \<longrightarrow>
           joinExam oid uuid now exams me c store = (Reply 400 False None, store))"
proof (intro conjI allI impI)
  fix s assume "findExamById examId exams = Some ex"
    and "findLiveSession examId (user_id me) store = Some s"
  with assms show "startMonitoringSession oid uuid now exams me examId store =
                (Reply 200 True (Some s), store)"
    by (intro start_resume)
next
  assume ex: "findExamById examId exams = Some ex"
    and none: "findLiveSession examId (user_id me) store = None"
  define s where "s = newSession oid uuid now examId (user_id me)"
  have again: "findLiveSession examId (user_id me) (store @ [s]) = Some s"
    using none unfolding s_def by (intro findLive_append) (simp_all add: newSession_fields)
  have first: "startMonitoringSession oid uuid now exams me examId store =
      (Reply 201 True (Some s), store @ [s])"
    unfolding s_def using ex assms none by (intro start_create)
  have second: "startMonitoringSession oid' uuid' now' exams me examId (store @ [s]) =
      (Reply 200 True (Some s), store @ [s])"
    using ex assms again by (intro start_resume)
  from first second show "\<exists>s. s = newSession oid uuid now examId (user_id me) \<and>
                   sessionId s = uuid \<and> status s = Active \<and>
                   violations s = [] \<and> faceVerifications s = [] \<and>
                   startMonitoringSession oid uuid now exams me examId store =
                     (Reply 201 True (Some s), store @ [s]) \<and>
                   startMonitoringSession oid' uuid' now' exams me examId (store @ [s]) =
                     (Reply 200 True (Some s), store @ [s])"
    unfolding s_def by (simp add: newSession_fields)
next
  fix s assume "findExamByCode (toUpperCase c) exams = Some ex \<and>
          (faceVerificationRequired ex \<longrightarrow> verificationStatus me = Verified)"
    and "findLiveSession (exam_id ex) (user_id me) store = Some s"
  with assms show "joinExam oid uuid now exams me c store = (Reply 200 True (Some (ex, s)), store)"
    by (intro join_resume) simp_all
next
  assume ex: "findExamByCode (toUpperCase c) exams = Some ex \<and>
          (faceVerificationRequired ex \<longrightarrow> verificationStatus me = Verified)"
    and none: "findLiveSession (exam_id ex) (user_id me) store = None"
  define s where "s = newSession oid uuid now (exam_id ex) (user_id me)"
  have again: "findLiveSession (exam_id ex) (user_id me) (store @ [s]) = Some s"
    using none unfolding s_def by (intro findLive_append) (simp_all add: newSession_fields)
  have first: "joinExam oid uuid now exams me c store = (Reply 200 True (Some (ex, s)), store @ [s])"
    unfolding s_def using ex assms none by (intro join_create) simp_all
  have second: "joinExam oid' uuid' now' exams me c (store @ [s]) =
      (Reply 200 True (Some (ex, s)), store @ [s])"
    using ex assms again by (intro join_resume) simp_all
  from first second show "\<exists>s. s = newSession oid uuid now (exam_id ex) (user_id me) \<and>
                   sessionId s = uuid \<and> status s = Active \<and>
                   violations s = [] \<and> faceVerifications s = [] \<and>
                   joinExam oid uuid now exams me c store =
                     (Reply 200 True (Some (ex, s)), store @ [s]) \<and>
                   joinExam oid' uuid' now' exams me c (store @ [s]) =
                     (Reply 200 True (Some (ex, s)), store @ [s])"
    unfolding s_def by (simp add: newSession_fields)
next
  assume "findExamByCode (toUpperCase c) exams = Some ex \<and>
          faceVerificationRequired ex \<and> verificationStatus me \<noteq> Verified"
  with assms show "joinExam oid uuid now exams me c store = (Reply 400 False None, store)"
    by (simp add: joinExam_def)
qed

text \<open>
  Jane has an active session for the exam and gets it back; Jane Smith has only a
  completed one, gets a new session, and the same one on her second call. Jane Smith,
  not verified, is refused at the exam that requires face verification.
\<close>

theorem startOrResume_idempotent_witness:
  "exam_status sampleExam = ExamOngoing \<and> exam_status openExam = ExamOngoing \<and>
   user_id jane \<in> set (enrolledStudents sampleExam) \<and>
   user_id janeSmith \<in> set (enrolledStudents sampleExam) \<and>
   user_id janeSmith \<in> set (enrolledStudents openExam) \<and>
   findExamById 100 [sampleExam, openExam] = Some sampleExam \<and>
   findLiveSession 100 (user_id jane) [liveSession, closedSession] = Some liveSession \<and>
   startMonitoringSession 12 ''u-1'' 9 [sampleExam, openExam] jane 100 [liveSession, closedSession] =
     (Reply 200 True (Some liveSession), [liveSession, closedSession]) \<and>
   findLiveSession 100 (user_id janeSmith) [liveSession, closedSession] = None \<and>
   (\<exists>s. sessionId s = ''u-1'' \<and> status s = Active \<and>
        startMonitoringSession 12 ''u-1'' 9 [sampleExam, openExam] janeSmith 100
            [liveSession, closedSession] =
          (Reply 201 True (Some s), [liveSession, closedSession, s]) \<and>
        startMonitoringSession 13 ''u-2'' 10 [sampleExam, openExam] janeSmith 100
            [liveSession, closedSession, s] =
          (Reply 200 True (Some s), [liveSession, closedSession, s])) \<and>
   findExamByCode (toUpperCase ''cs101'') [sampleExam, openExam] = Some sampleExam \<and>
   verificationStatus jane = Verified \<and>
   joinExam 12 ''u-1'' 9 [sampleExam, openExam] jane ''cs101'' [liveSession, closedSession] =
     (Reply 200 True (Some (sampleExam, liveSession)), [liveSession, closedSession]) \<and>
   findExamByCode (toUpperCase ''ma202'') [sampleExam, openExam] = Some openExam \<and>
   faceVerificationRequired openExam = False \<and>
   findLiveSession (exam_id openExam) (user_id janeSmith) [liveSession, closedSession] = None \<and>
   (\<exists>s. sessionId s = ''u-1'' \<and> status s = Active \<and>
        joinExam 12 ''u-1'' 9 [sampleExam, openExam] janeSmith ''ma202'' [liveSession, closedSession] =
          (Reply 200 True (Some (openExam, s)), [liveSession, closedSession, s]) \<and>
        joinExam 13 ''u-2'' 10 [sampleExam, openExam] janeSmith ''ma202''
            [liveSession, closedSession, s] =
          (Reply 200 True (Some (openExam, s)), [liveSession, closedSession, s])) \<and>
   faceVerificationRequired sampleExam \<and> verificationStatus janeSmith \<noteq> Verified \<and>
   joinExam 12 ''u-1'' 9 [sampleExam, openExam] janeSmith ''cs101'' [liveSession, closedSession] =
     (Reply 400 False None, [liveSession, closedSession])"
proof -
  note a = startOrResume_idempotent [OF sample_exams(4) sample_exams(6),
      of 100 "[sampleExam, openExam]" "[liveSession, closedSession]" 12 "''u-1''" 9 13 "''u-2''" 10 "''cs101''"]
  note b = startOrResume_idempotent [OF sample_exams(4) sample_exams(7),
      of 100 "[sampleExam, openExam]" "[liveSession, closedSession]" 12 "''u-1''" 9 13 "''u-2''" 10 "''cs101''"]
  note c = startOrResume_idempotent [OF sample_exams(5) sample_exams(9),
      of 100 "[sampleExam, openExam]" "[liveSession, closedSession]" 12 "''u-1''" 9 13 "''u-2''" 10 "''ma202''"]
  have v: "verificationStatus jane = Verified" by (simp add: jane_def)
  have f: "faceVerificationRequired openExam = False" by (simp add: openExam_def)
  have A: "startMonitoringSession 12 ''u-1'' 9 [sampleExam, openExam] jane 100 [liveSession, closedSession] =
     (Reply 200 True (Some liveSession), [liveSession, closedSession])"
    using a sample_exams(1) sample_live(1) by blast
  have B: "\<exists>s. sessionId s = ''u-1'' \<and> status s = Active \<and>
        startMonitoringSession 12 ''u-1'' 9 [sampleExam, openExam] janeSmith 100
            [liveSession, closedSession] =
          (Reply 201 True (Some s), [liveSession, closedSession, s]) \<and>
        startMonitoringSession 13 ''u-2'' 10 [sampleExam, openExam] janeSmith 100
            [liveSession, closedSession, s] =
          (Reply 200 True (Some s), [liveSession, closedSession, s])"
    using b sample_exams(1) sample_live(2) by auto
  have C: "joinExam 12 ''u-1'' 9 [sampleExam, openExam] jane ''cs101'' [liveSession, closedSession] =
     (Reply 200 True (Some (sampleExam, liveSession)), [liveSession, closedSession])"
    using a sample_exams(3) sample_gate(1) sample_live(4) by blast
  have D: "\<exists>s. sessionId s = ''u-1'' \<and> status s = Active \<and>
        joinExam 12 ''u-1'' 9 [sampleExam, openExam] janeSmith ''ma202'' [liveSession, closedSession] =
          (Reply 200 True (Some (openExam, s)), [liveSession, closedSession, s]) \<and>
        joinExam 13 ''u-2'' 10 [sampleExam, openExam] janeSmith ''ma202''
            [liveSession, closedSession, s] =
          (Reply 200 True (Some (openExam, s)), [liveSession, closedSession, s])"
    using c sample_exams(2) sample_gate(2) sample_live(3) by auto
  have g: "faceVerificationRequired sampleExam" "verificationStatus janeSmith \<noteq> Verified"
    by (simp_all add: sampleExam_def janeSmith_def)
  have E: "joinExam 12 ''u-1'' 9 [sampleExam, openExam] janeSmith ''cs101''
      [liveSession, closedSession] = (Reply 400 False None, [liveSession, closedSession])"
    using b sample_exams(3) g by blast
  from A B C D E g sample_exams sample_live v f show ?thesis by blast
qed

section \<open>The face verification gate of joinExam\<close>

text \<open>
  C9: a request to join an ongoing exam whose settings require face verification, from
  a student whose verificationStatus is not "verified", fails with a client error and
  leaves the collection of sessions as it is (for an enrolled student the answer is
  400). When the exam does not require face verification, the answer does not depend on
  the student's verificationStatus.
\<close>

theorem joinExam_face_gate:
  assumes "findExamByCode (toUpperCase c) exams = Some ex" and "exam_status ex = ExamOngoing"
  shows "(faceVerificationRequired ex \<and> verificationStatus me \<noteq> Verified \<longrightarrow>
            clientError (fst (joinExam oid uuid now exams me c store)) \<and>
            snd (joinExam oid uuid now exams me c store) = store \<and>
            (user_id me \<in> set (enrolledStudents ex) \<longrightarrow>
               joinExam oid uuid now exams me c store = (Reply 400 False None, store))) \<and>
         (\<not> faceVerificationRequired ex \<longrightarrow>
            joinExam oid uuid now exams (me\<lparr>verificationStatus := v\<rparr>) c store =
            joinExam oid uuid now exams me c store)"
  using assms by (auto simp: joinExam_def clientError_def Let_def split: option.splits)

text \<open>
  Jane Smith, whose verification is pending, is refused at the exam that requires face
  verification, and is treated the same whatever her status at the one that does not.
\<close>

theorem joinExam_face_gate_witness:
  "findExamByCode (toUpperCase ''cs101'') [sampleExam, openExam] = Some sampleExam \<and>
   exam_status sampleExam = ExamOngoing \<and>
   faceVerificationRequired sampleExam \<and> verificationStatus janeSmith \<noteq> Verified \<and>
   user_id janeSmith \<in> set (enrolledStudents sampleExam) \<and>
   joinExam 12 ''u-1'' 9 [sampleExam, openExam] janeSmith ''cs101'' [liveSession, closedSession] =
     (Reply 400 False None, [liveSession, closedSession]) \<and>
   findExamByCode (toUpperCase ''ma202'') [sampleExam, openExam] = Some openExam \<and>
   exam_status openExam = ExamOngoing \<and> faceVerificationRequired openExam = False \<and>
   joinExam 12 ''u-1'' 9 [sampleExam, openExam] (janeSmith\<lparr>verificationStatus := Rejected\<rparr>) ''ma202''
       [liveSession, closedSession] =
   joinExam 12 ''u-1'' 9 [sampleExam, openExam] janeSmith ''ma202'' [liveSession, closedSession]"
proof -
  have g: "faceVerificationRequired sampleExam" "verificationStatus janeSmith \<noteq> Verified"
    "faceVerificationRequired openExam = False"
    by (simp_all add: sampleExam_def janeSmith_def openExam_def)
  from joinExam_face_gate [OF sample_exams(3) sample_exams(4), of janeSmith 12 "''u-1''" 9
      "[liveSession, closedSession]"]
    joinExam_face_gate [OF sample_exams(2) sample_exams(5), of janeSmith 12 "''u-1''" 9
      "[liveSession, closedSession]" Rejected]
  show ?thesis using g sample_exams by simp
qed

section \<open>Face verification without a stored descriptor\<close>

text \<open>
  C10: when the detection reports a face and not several, and the session's student has
  no stored face descriptor, verifyFace for the student's own session answers success
  with result "no_reference" and confidence 0, and saves the session with one more
  verification record (that result, confidence 0) at the end of the ledger; nothing else
  of the session changes, so no violation is added.
\<close>

theorem verifyFace_no_reference:
  assumes "findOneSession sid store = Some s" and "users (student s) = Some stu"
    and "student s = user_id me"
    and "hasFace det" and "\<not> multipleFaces det" and "faceData stu = None"
  shows "verifyFace now users det jsonParse similarity me sid img store =
           (Reply 200 True (Some (''no_reference'', 0)),
            save (s\<lparr>faceVerifications := faceVerifications s @
                      [\<lparr>v_timestamp = now, result = ''no_reference'', confidence = 0,
                        image = truncated img\<rparr>]\<rparr>) store)"
  using assms by (simp add: verifyFace_def Let_def addFaceVerification_def)

text \<open>Jane, who has no stored descriptor, sends a frame with one face.\<close>

theorem verifyFace_no_reference_witness:
  "findOneSession ''s-10'' [liveSession, closedSession] = Some liveSession \<and>
   sampleUsers (student liveSession) = Some jane \<and> student liveSession = user_id jane \<and>
   hasFace oneFace \<and> \<not> multipleFaces oneFace \<and> faceData jane = None \<and>
   verifyFace 9 sampleUsers oneFace (\<lambda>d. Descriptor) 1 jane ''s-10'' ''frame''
       [liveSession, closedSession] =
     (Reply 200 True (Some (''no_reference'', 0)),
      [liveSession\<lparr>faceVerifications :=
         [\<lparr>v_timestamp = 9, result = ''no_reference'', confidence = 0, image = ''frame...''\<rparr>]\<rparr>,
       closedSession])"
proof -
  have u: "sampleUsers (student liveSession) = Some jane"
    by (simp add: sampleUsers_def liveSession_def)
  have d: "hasFace oneFace" "\<not> multipleFaces oneFace" "faceData jane = None"
    by (simp_all add: oneFace_def jane_def)
  have sv: "\<And>x. session_oid x = 10 \<Longrightarrow> save x [liveSession, closedSession] = [x, closedSession]"
    by (simp add: save_def liveSession_def closedSession_def)
  have fv: "faceVerifications liveSession = []" "session_oid liveSession = 10"
    by (simp_all add: liveSession_def)
  from verifyFace_no_reference [where users = sampleUsers, OF live_sample(1) u live_sample(2) d,
      of 9 "\<lambda>d. Descriptor" 1 "''frame''"]
  show ?thesis using u d live_sample fv by (simp add: sv truncated_def)
qed

section \<open>Reconciliation of reported names\<close>

text \<open>\<open>includesStr\<close> is the substring test, \<open>startsWith\<close> the prefix test.\<close>

lemma startsWith_iff: "startsWith s p \<longleftrightarrow> (\<exists>b. s = p @ b)"
  by (induction s p rule: startsWith.induct) auto

lemma includesStr_iff: "includesStr s p \<longleftrightarrow> (\<exists>a b. s = a @ p @ b)"
proof (induction s)
  case Nil
  then show ?case by simp
next
  case (Cons c cs)
  show ?case
  proof
    assume "includesStr (c # cs) p"
    then consider "startsWith (c # cs) p" | "includesStr cs p" by auto
    then show "\<exists>a b. c # cs = a @ p @ b"
    proof cases
      case 1
      then obtain b where "c # cs = p @ b" using startsWith_iff by blast
      then have "c # cs = [] @ p @ b" by simp
      then show ?thesis by blast
    next
      case 2
      then obtain a b where "cs = a @ p @ b" using Cons.IH by blast
      then have "c # cs = (c # a) @ p @ b" by simp
      then show ?thesis by blast
    qed
  next
    assume "\<exists>a b. c # cs = a @ p @ b"
    then obtain a b where ab: "c # cs = a @ p @ b" by blast
    show "includesStr (c # cs) p"
    proof (cases a)
      case Nil
      with ab have "startsWith (c # cs) p" using startsWith_iff by auto
      then show ?thesis by simp
    next
      case (Cons x xs)
      with ab have "cs = xs @ p @ b" by simp
      then have "includesStr cs p" using Cons.IH by blast
      then show ?thesis by simp
    qed
  qed
qed


lemma nameMatches_spec: "nameMatches (fullNameOf u) l = spec_satisfies l u"
  by (simp add: nameMatches_def spec_satisfies_def)

lemma matchRecord_find:
  "map snd recs = map Some us \<Longrightarrow>
   matchRecord cond l recs = Inr (find (\<lambda>u. cond (fullNameOf u) l) us)"
proof (induction recs arbitrary: us)
  case Nil
  then show ?case by simp
next
  case (Cons p recs)
  then obtain u us' where us: "us = u # us'" "snd p = Some u" "map snd recs = map Some us'"
    by (cases us) auto
  obtain r where p: "p = (r, Some u)" using us(2) by (cases p) auto
  show ?case using Cons.IH [OF us(3)] by (simp add: us(1) p)
qed

lemma matchLoop_spec:
  assumes "map snd recs = map Some roster"
  shows "matchLoop labels recs ids entries =
           Inr (ids @ spec_matchedIds roster labels, entries @ map (spec_verdict roster) labels)"
proof (induction labels arbitrary: ids entries)
  case Nil
  then show ?case by (simp add: spec_matchedIds_def)
next
  case (Cons l labels)
  have m: "matchRecord nameMatches l recs = Inr (find (spec_satisfies l) roster)"
    using matchRecord_find [OF assms, of nameMatches l] by (simp add: nameMatches_spec)
  show ?case
  proof (cases "find (spec_satisfies l) roster")
    case None
    then show ?thesis using m Cons.IH
      by (simp add: spec_matchedIds_def spec_verdict_def)
  next
    case (Some u)
    then show ?thesis using m Cons.IH
      by (simp add: spec_matchedIds_def spec_verdict_def)
  qed
qed

lemma updateMany_no_ids: "fst (updateMany sid d [] now store) = store"
  by (simp add: updateMany_def selected_def map_idI)

lemma spec_matchedIds_none:
  "\<forall>l\<in>set labels. find (spec_satisfies l) roster = None \<Longrightarrow> spec_matchedIds roster labels = []"
  by (induction labels) (simp_all add: spec_matchedIds_def)

lemmas string_eval = normalized_def trim_def toLowerCase_def toLowerChar_def isWhiteSpace_def
  fullNameOf_def

lemma sample_roster:
  "map snd (populate sampleUsers (findAttendance ''room-1'' 20 sampleAttendance)) =
     map Some [jane, janeSmith, john]"
  by (simp add: populate_def findAttendance_def sampleAttendance_def sampleUsers_def)

lemma sample_verdicts:
  "find (spec_satisfies ''jane doe'') [jane, janeSmith, john] = Some jane"
  "find (spec_satisfies ''nonexistent'') [jane, janeSmith, john] = None"
  by (simp_all add: spec_satisfies_def string_eval jane_def janeSmith_def john_def)

text \<open>
  C4: for a well-formed request (session key, date and a non-empty list of labels) and
  a non-empty roster whose records all resolve to a student, verifyAttendanceWithAI
  succeeds and its match log holds exactly one verdict for each label, in the order of
  the labels: Matched with the first roster entry, in roster order, whose normalized
  full name equals the normalized label, contains it or is contained in it, and
  Not Found when no entry does. The records marked are those of the matched entries;
  when no label is matched the collection is unchanged.
\<close>

theorem reconciliation_first_match:
  assumes "ai_attendanceDate req = Some d" and "ai_sessionId req \<noteq> []"
    and "aiDetectedStudents req \<noteq> []"
    and "map snd (populate users (findAttendance (ai_sessionId req) d store)) = map Some roster"
    and "roster \<noteq> []"
  shows "\<exists>dat. verifyAttendanceWithAI now users req store =
                 (Reply 200 True (Some dat),
                  fst (updateMany (ai_sessionId req) d
                         (spec_matchedIds roster (aiDetectedStudents req)) now store)) \<and>
               matchLog dat = map (spec_verdict roster) (aiDetectedStudents req) \<and>
               ((\<forall>l\<in>set (aiDetectedStudents req). find (spec_satisfies l) roster = None) \<longrightarrow>
                  snd (verifyAttendanceWithAI now users req store) = store)"
proof -
  let ?recs = "populate users (findAttendance (ai_sessionId req) d store)"
  have ne: "?recs \<noteq> []" using assms(4,5) by auto
  have loop: "matchLoop (aiDetectedStudents req) ?recs [] [] =
      Inr (spec_matchedIds roster (aiDetectedStudents req),
           map (spec_verdict roster) (aiDetectedStudents req))"
    using matchLoop_spec [OF assms(4), of "aiDetectedStudents req" "[]" "[]"] by simp
  have run: "\<exists>dat. verifyAttendanceWithAI now users req store =
                 (Reply 200 True (Some dat),
                  fst (updateMany (ai_sessionId req) d
                         (spec_matchedIds roster (aiDetectedStudents req)) now store)) \<and>
               matchLog dat = map (spec_verdict roster) (aiDetectedStudents req)"
    using assms(1-3) ne loop
    by (simp add: verifyAttendanceWithAI_def Let_def split_beta)
  then obtain dat where dat: "verifyAttendanceWithAI now users req store =
                 (Reply 200 True (Some dat),
                  fst (updateMany (ai_sessionId req) d
                         (spec_matchedIds roster (aiDetectedStudents req)) now store))"
     "matchLog dat = map (spec_verdict roster) (aiDetectedStudents req)" by blast
  have "(\<forall>l\<in>set (aiDetectedStudents req). find (spec_satisfies l) roster = None) \<longrightarrow>
                  snd (verifyAttendanceWithAI now users req store) = store"
    using dat(1) by (auto simp: spec_matchedIds_none updateMany_no_ids)
  with dat show ?thesis by blast
qed

text \<open>
  Against the roster Jane Doe, Jane Doe Smith, John Smith the label "jane doe" is matched
  with Jane Doe, the first entry, not with Jane Doe Smith; the label "nonexistent" is
  not found and the records stay as they are.
\<close>

theorem reconciliation_first_match_witness:
  "ai_attendanceDate janeRequest = Some 20 \<and> ai_sessionId janeRequest = ''room-1'' \<and>
   aiDetectedStudents janeRequest = [''jane doe''] \<and>
   map snd (populate sampleUsers (findAttendance ''room-1'' 20 sampleAttendance)) =
     map Some [jane, janeSmith, john] \<and>
   fullNameOf jane = ''Jane Doe'' \<and> fullNameOf janeSmith = ''Jane Doe Smith'' \<and>
   (\<exists>dat. fst (verifyAttendanceWithAI 30 sampleUsers janeRequest sampleAttendance) =
            Reply 200 True (Some dat) \<and>
          matchLog dat =
            [\<lparr>detected = ''jane doe'', matched = Some ''Jane Doe'', entry_status = ''Matched''\<rparr>]) \<and>
   ai_attendanceDate strangerRequest = Some 20 \<and> ai_sessionId strangerRequest = ''room-1'' \<and>
   aiDetectedStudents strangerRequest = [''nonexistent''] \<and>
   find (spec_satisfies ''nonexistent'') [jane, janeSmith, john] = None \<and>
   (\<exists>dat. verifyAttendanceWithAI 30 sampleUsers strangerRequest sampleAttendance =
            (Reply 200 True (Some dat), sampleAttendance) \<and>
          matchLog dat =
            [\<lparr>detected = ''nonexistent'', matched = None, entry_status = ''Not Found''\<rparr>])"
proof -
  have j: "ai_attendanceDate janeRequest = Some 20" "ai_sessionId janeRequest = ''room-1''"
    "aiDetectedStudents janeRequest = [''jane doe'']"
    by (simp_all add: janeRequest_def)
  have n: "ai_attendanceDate strangerRequest = Some 20" "ai_sessionId strangerRequest = ''room-1''"
    "aiDetectedStudents strangerRequest = [''nonexistent'']"
    by (simp_all add: strangerRequest_def)
  have names: "fullNameOf jane = ''Jane Doe''" "fullNameOf janeSmith = ''Jane Doe Smith''"
    by (simp_all add: fullNameOf_def jane_def janeSmith_def)
  have A: "\<exists>dat. fst (verifyAttendanceWithAI 30 sampleUsers janeRequest sampleAttendance) =
            Reply 200 True (Some dat) \<and>
          matchLog dat =
            [\<lparr>detected = ''jane doe'', matched = Some ''Jane Doe'', entry_status = ''Matched''\<rparr>]"
    using reconciliation_first_match [where req = janeRequest and users = sampleUsers
        and store = sampleAttendance and roster = "[jane, janeSmith, john]" and d = 20 and now = 30]
      j sample_roster sample_verdicts(1) names
    by (auto simp: spec_verdict_def)
  have B: "\<exists>dat. verifyAttendanceWithAI 30 sampleUsers strangerRequest sampleAttendance =
            (Reply 200 True (Some dat), sampleAttendance) \<and>
          matchLog dat =
            [\<lparr>detected = ''nonexistent'', matched = None, entry_status = ''Not Found''\<rparr>]"
    using reconciliation_first_match [where req = strangerRequest and users = sampleUsers
        and store = sampleAttendance and roster = "[jane, janeSmith, john]" and d = 20 and now = 30]
      n sample_roster sample_verdicts(2)
    by (auto simp: spec_verdict_def)
  from A B j n names sample_roster sample_verdicts(2) show ?thesis by blast
qed

section \<open>Attendance marks\<close>


lemma monotonicStep_refl: "list_all2 (monotonicStep now) store store"
  by (simp add: list_all2_same monotonicStep_def)

lemma updateMany_monotonic: "list_all2 (monotonicStep now) store (fst (updateMany sid d ids now store))"
  by (simp add: updateMany_def list_all2_map2 list_all2_same monotonicStep_def selected_def)

lemma updateAttendanceByAI_store:
  "snd (updateAttendanceByAI now req store) = store \<or>
   (\<exists>sid d ids. snd (updateAttendanceByAI now req store) = fst (updateMany sid d ids now store))"
  by (auto simp: updateAttendanceByAI_def Let_def split_beta split: option.splits)

lemma verifyAttendanceWithAI_store:
  "snd (verifyAttendanceWithAI now users req store) = store \<or>
   (\<exists>sid d ids. snd (verifyAttendanceWithAI now users req store) = fst (updateMany sid d ids now store))"
  by (auto simp: verifyAttendanceWithAI_def Let_def split_beta split: option.splits sum.splits)

lemma hybridAttendanceVerification_store:
  "snd (hybridAttendanceVerification now users req store) = store \<or>
   (\<exists>sid d ids. snd (hybridAttendanceVerification now users req store) =
      fst (updateMany sid d ids now store))"
  by (auto simp: hybridAttendanceVerification_def Let_def split_beta
      split: option.splits sum.splits prod.splits)

text \<open>
  C5: attendance marks are monotonic. Each of the marking operations
  (updateAttendanceByAI, verifyAttendanceWithAI, hybridAttendanceVerification) leaves
  the collection with the same records in the same order, where a record that was
  Present is exactly the record it was (its markedAt included), and a record that was
  Absent is either unchanged or has become Present with the time of the operation as
  markedAt. Marking students who are already Present is no error: a well-formed
  updateAttendanceByAI request is answered with success.
\<close>

theorem attendance_marks_monotonic:
  "list_all2 (monotonicStep now) store (snd (updateAttendanceByAI now mreq store)) \<and>
   list_all2 (monotonicStep now) store (snd (verifyAttendanceWithAI now users areq store)) \<and>
   list_all2 (monotonicStep now) store (snd (hybridAttendanceVerification now users hreq store)) \<and>
   (mark_attendanceDate mreq \<noteq> None \<and> mark_sessionId mreq \<noteq> [] \<and> presentStudentIds mreq \<noteq> [] \<longrightarrow>
      (\<exists>n. fst (updateAttendanceByAI now mreq store) = Reply 200 True (Some n)))"
proof (intro conjI impI)
  show "list_all2 (monotonicStep now) store (snd (updateAttendanceByAI now mreq store))"
    using updateAttendanceByAI_store [of now mreq store]
    by (auto simp: monotonicStep_refl updateMany_monotonic)
  show "list_all2 (monotonicStep now) store (snd (verifyAttendanceWithAI now users areq store))"
    using verifyAttendanceWithAI_store [of now users areq store]
    by (auto simp: monotonicStep_refl updateMany_monotonic)
  show "list_all2 (monotonicStep now) store (snd (hybridAttendanceVerification now users hreq store))"
    using hybridAttendanceVerification_store [of now users hreq store]
    by (auto simp: monotonicStep_refl updateMany_monotonic)
next
  assume "mark_attendanceDate mreq \<noteq> None \<and> mark_sessionId mreq \<noteq> [] \<and> presentStudentIds mreq \<noteq> []"
  then show "\<exists>n. fst (updateAttendanceByAI now mreq store) = Reply 200 True (Some n)"
    by (auto simp: updateAttendanceByAI_def Let_def split_beta)
qed

text \<open>
  Jane Doe is already Present, marked at 21. A second pass that reports her again, by
  name or by identifier, leaves her record as it was.
\<close>

theorem attendance_marks_monotonic_witness:
  "attendanceMark (sampleAttendance ! 0) = Present \<and> markedAt (sampleAttendance ! 0) = Some 21 \<and>
   snd (verifyAttendanceWithAI 30 sampleUsers janeRequest sampleAttendance) ! 0 = sampleAttendance ! 0 \<and>
   snd (hybridAttendanceVerification 30 sampleUsers paddedReport sampleAttendance) ! 0 =
     sampleAttendance ! 0 \<and>
   mark_attendanceDate markRequestJane \<noteq> None \<and> mark_sessionId markRequestJane \<noteq> [] \<and>
   presentStudentIds markRequestJane \<noteq> [] \<and>
   (\<exists>n. fst (updateAttendanceByAI 30 markRequestJane sampleAttendance) = Reply 200 True (Some n)) \<and>
   snd (updateAttendanceByAI 30 markRequestJane sampleAttendance) ! 0 = sampleAttendance ! 0"
proof -
  have p: "attendanceMark (sampleAttendance ! 0) = Present" "markedAt (sampleAttendance ! 0) = Some 21"
    "0 < length sampleAttendance"
    by (simp_all add: sampleAttendance_def)
  have q: "mark_attendanceDate markRequestJane \<noteq> None" "mark_sessionId markRequestJane \<noteq> []"
    "presentStudentIds markRequestJane \<noteq> []"
    by (simp_all add: markRequestJane_def)
  note m = attendance_marks_monotonic [of 30 sampleAttendance markRequestJane sampleUsers
      janeRequest paddedReport]
  have same: "\<And>store'. list_all2 (monotonicStep 30) sampleAttendance store' \<Longrightarrow>
      store' ! 0 = sampleAttendance ! 0"
    using p(1,3) by (auto dest!: list_all2_nthD [where p = 0] simp: monotonicStep_def)
  from m have a: "snd (updateAttendanceByAI 30 markRequestJane sampleAttendance) ! 0 =
      sampleAttendance ! 0" by (intro same) blast
  from m have b: "snd (verifyAttendanceWithAI 30 sampleUsers janeRequest sampleAttendance) ! 0 =
      sampleAttendance ! 0" by (intro same) blast
  from m have c: "snd (hybridAttendanceVerification 30 sampleUsers paddedReport sampleAttendance) ! 0 =
      sampleAttendance ! 0" by (intro same) blast
  from m q have d: "\<exists>n. fst (updateAttendanceByAI 30 markRequestJane sampleAttendance) =
      Reply 200 True (Some n)" by blast
  from a b c d p q show ?thesis by blast
qed

section \<open>The length gate of the hybrid verification\<close>

text \<open>
  What the gate does: normalized names that are equal match without a length test; a
  match by containment needs the contained side's string, as it was received, to be
  longer than two characters.
\<close>

lemma hybridMatches_equal: "normalized fullName = normalized label \<Longrightarrow> hybridMatches fullName label"
  by (simp add: hybridMatches_def)

lemma hybridMatches_gate:
  assumes "hybridMatches fullName label" and "normalized fullName \<noteq> normalized label"
  shows "(includesStr (normalized fullName) (normalized label) \<and> length label > 2) \<or>
         (includesStr (normalized label) (normalized fullName) \<and> length fullName > 2)"
  using assms by (auto simp: hybridMatches_def)

text \<open>
  C8: the label "Jo " (with a trailing blank) is received with three characters, and
  its normalized form "jo" has two. The hybrid verification matches it by containment
  with John Smith and marks him Present, although the contained string has no more than
  two characters. A label of three blanks, whose normalized form is empty, matches any
  name in the same way.
\<close>

theorem hybrid_gate_measures_received_length:
  "normalized ''Jo '' = ''jo'' \<and> normalized ''John Smith'' = ''john smith'' \<and>
   hybridMatches ''John Smith'' ''Jo '' \<and>
   normalized ''   '' = [] \<and> hybridMatches ''Jane Doe'' ''   '' \<and>
   snd (hybridAttendanceVerification 30 sampleUsers paddedReport sampleAttendance) =
     [sampleAttendance ! 0, sampleAttendance ! 1,
      (sampleAttendance ! 2)\<lparr>attendanceMark := Present, markedAt := Some 30\<rparr>]"
  by (simp add: hybridAttendanceVerification_def paddedReport_def sampleAttendance_def
      sampleUsers_def populate_def findAttendance_def hybridMatches_def string_eval
      updateMany_def selected_def jane_def janeSmith_def john_def Let_def)

end
